theory Spec2Isabelle
  imports Complex_Main
begin

section \<open>Geometry values\<close>

text \<open>
  The program \<^verbatim>\<open>tactile_map_generator.py\<close> works on shapely geometry objects. A
  geometry is modelled by its class and its coordinates; coordinates are Python floats,
  idealised here as real numbers. \<open>LinearRing\<close> is listed because shapely declares it
  as a subclass of \<open>LineString\<close>, which matters for the \<^verbatim>\<open>isinstance\<close> test of the
  path loop. A \<open>Polygon\<close> holds its exterior ring and its holes; the constructor call
  \<^verbatim>\<open>Polygon([(0,0), (20,0), (20,20), (0,20)])\<close> is \<open>Polygon [(0,0), (20,0), (20,20), (0,20)] []\<close>.
\<close>

type_synonym coord = "real \<times> real"

datatype geometry =
    Point coord
  | LineString "coord list"
  | LinearRing "coord list"
  | Polygon "coord list" "coord list list"
  | MultiPoint "coord list"
  | MultiLineString "coord list list"
  | MultiPolygon "(coord list \<times> coord list list) list"
  | GeometryCollection "geometry list"

text \<open>Exceptions are values. \<open>ValueError\<close> is the one the program raises itself (and the
  one \<^verbatim>\<open>max\<close> raises on an empty sequence); \<open>LibraryError\<close> stands for any other
  exception of a library call.\<close>

datatype exception = ValueError string | LibraryError string

text \<open>\<^verbatim>\<open>all_buildings.geoms\<close>: the parts of a multi-polygon, each a \<open>Polygon\<close> object.\<close>

definition geoms :: "(coord list \<times> coord list list) list \<Rightarrow> geometry list" where
  "geoms parts = map (\<lambda>(shell, holes). Polygon shell holes) parts"

subsection \<open>The area of the fallback square\<close>

text \<open>The area of a ring is the absolute value of the shoelace sum over its edges, the
  ring being closed by its first point (a ring whose last point repeats the first gets a
  zero term). A polygon's area is that of its exterior ring less those of its holes;
  points and curves have area 0; a collection has the sum of its parts' areas. This is
  the exact area; the float that shapely's \<^verbatim>\<open>area\<close> property returns for a part of a
  union is a parameter of the model (\<open>float_area\<close> below).\<close>

fun shoelace :: "coord list \<Rightarrow> real" where
  "shoelace (p # q # ps) = (fst p * snd q - fst q * snd p) + shoelace (q # ps)"
| "shoelace _ = 0"

definition ring_area :: "coord list \<Rightarrow> real" where
  "ring_area ring = (case ring of [] \<Rightarrow> 0 | p # _ \<Rightarrow> \<bar>shoelace (ring @ [p])\<bar> / 2)"

definition polygon_area :: "coord list \<Rightarrow> coord list list \<Rightarrow> real" where
  "polygon_area shell holes = ring_area shell - sum_list (map ring_area holes)"

fun area :: "geometry \<Rightarrow> real" where
  "area (Polygon shell holes) = polygon_area shell holes"
| "area (MultiPolygon parts) = sum_list (map (\<lambda>(shell, holes). polygon_area shell holes) parts)"
| "area (GeometryCollection gs) = sum_list (map area gs)"
| "area _ = 0"

subsection \<open>Python floats and their comparison\<close>

text \<open>A value of Python's \<^verbatim>\<open>float\<close>: a number, one of the two infinities, or NaN.
  \<open>py_gt\<close> is the comparison \<^verbatim>\<open>>\<close>: false whenever one side is NaN.\<close>

datatype pyfloat = Finite real | PosInf | NegInf | NaN

fun py_gt :: "pyfloat \<Rightarrow> pyfloat \<Rightarrow> bool" where
  "py_gt (Finite a) (Finite b) = (a > b)"
| "py_gt (Finite a) NegInf = True"
| "py_gt PosInf (Finite b) = True"
| "py_gt PosInf NegInf = True"
| "py_gt _ _ = False"

section \<open>The shapely operations the program calls\<close>

text \<open>
  \<^verbatim>\<open>unary_union\<close>, \<^verbatim>\<open>is_valid\<close>, \<^verbatim>\<open>buffer\<close>, \<^verbatim>\<open>simplify\<close> and the \<^verbatim>\<open>area\<close> property
  are code of the shapely library, not of this repository: they are parameters of the
  model, collected in a record. \<open>float_area\<close> is the float that \<^verbatim>\<open>p.area\<close> returns.
  \<open>buffer\<close> can fail: the program itself calls it inside a \<^verbatim>\<open>try\<close> block (line 125)
  and handles the exception.
\<close>

record shapely =
  unary_union :: "geometry list \<Rightarrow> geometry"
  is_valid :: "geometry \<Rightarrow> bool"
  buffer :: "geometry \<Rightarrow> real \<Rightarrow> exception + geometry"
  simplify :: "geometry \<Rightarrow> real \<Rightarrow> geometry"
  float_area :: "geometry \<Rightarrow> pyfloat"

section \<open>\<^verbatim>\<open>process_geometries\<close>: buildings\<close>

text \<open>Python's \<^verbatim>\<open>max(iterable, key=f)\<close>: the first item starts as the maximum and a later
  item replaces it only when its key is greater by \<^verbatim>\<open>>\<close>; an empty iterable raises
  \<open>ValueError\<close>.\<close>

fun max_loop :: "('a \<Rightarrow> pyfloat) \<Rightarrow> 'a \<Rightarrow> pyfloat \<Rightarrow> 'a list \<Rightarrow> 'a" where
  "max_loop key maxitem maxval [] = maxitem"
| "max_loop key maxitem maxval (item # items) =
     (let val = key item in
      if py_gt val maxval then max_loop key item val items
      else max_loop key maxitem maxval items)"

definition py_max :: "('a \<Rightarrow> pyfloat) \<Rightarrow> 'a list \<Rightarrow> exception + 'a" where
  "py_max key items =
     (case items of
        [] \<Rightarrow> Inl (ValueError ''max() arg is an empty sequence'')
      | item # rest \<Rightarrow> Inr (max_loop key item (key item) rest))"

text \<open>Line 72: the fallback building.\<close>

definition fallback_building :: geometry where
  "fallback_building = Polygon [(0, 0), (20, 0), (20, 20), (0, 20)] []"

text \<open>Lines 76 to 79: the part of a multi-polygon that \<^verbatim>\<open>max\<close> picks by
  \<^verbatim>\<open>key=lambda p: p.area\<close>, anything else as it is.\<close>

definition select_building :: "shapely \<Rightarrow> geometry \<Rightarrow> exception + geometry" where
  "select_building sh all_buildings =
     (case all_buildings of
        MultiPolygon parts \<Rightarrow> py_max (float_area sh) (geoms parts)
      | _ \<Rightarrow> Inr all_buildings)"

text \<open>Lines 82 to 84: repair by \<^verbatim>\<open>buffer(0)\<close> when invalid, then simplify with tolerance 2.
  An exception of \<^verbatim>\<open>buffer\<close> is not handled here and leaves the function.\<close>

definition clean_geometry :: "shapely \<Rightarrow> geometry \<Rightarrow> exception + geometry" where
  "clean_geometry sh building_poly =
     (case (if \<not> is_valid sh building_poly then buffer sh building_poly 0
            else Inr building_poly) of
        Inl e \<Rightarrow> Inl e
      | Inr repaired \<Rightarrow> Inr (simplify sh repaired 2))"

text \<open>Lines 70 to 84. \<open>buildings\<close> is the geometry column of the data frame, one
  geometry per row, so \<^verbatim>\<open>len(buildings)\<close> is the length of the list.\<close>

definition buildings_processing :: "shapely \<Rightarrow> geometry list \<Rightarrow> exception + geometry" where
  "buildings_processing sh buildings =
     (if length buildings = 0 then Inr fallback_building
      else (case select_building sh (unary_union sh buildings) of
              Inl e \<Rightarrow> Inl e
            | Inr building_poly \<Rightarrow> clean_geometry sh building_poly))"

section \<open>\<^verbatim>\<open>process_geometries\<close>: paths\<close>

text \<open>Line 91: \<^verbatim>\<open>ox.graph_to_gdfs(graph, nodes=False)\<close> is code of the osmnx library and a
  parameter of the model. It returns the edge table, represented by the geometries of
  its rows in iteration order, or raises; the call stands outside any \<^verbatim>\<open>try\<close> block,
  so its exception leaves \<^verbatim>\<open>process_geometries\<close>. The type \<open>'g\<close> is that of graphs.\<close>

record 'g osmnx =
  graph_to_gdfs :: "'g \<Rightarrow> exception + geometry list"

text \<open>Line 93: \<^verbatim>\<open>isinstance(edge.geometry, LineString) and len(edge.geometry.coords) >= 2\<close>.
  The \<^verbatim>\<open>isinstance\<close> test accepts \<open>LineString\<close> and its subclass \<open>LinearRing\<close>; by
  the short-circuit \<^verbatim>\<open>and\<close>, \<^verbatim>\<open>coords\<close> is read only from those two classes, where it
  is the stored coordinate sequence.\<close>

fun isinstance_LineString :: "geometry \<Rightarrow> bool" where
  "isinstance_LineString (LineString cs) = True"
| "isinstance_LineString (LinearRing cs) = True"
| "isinstance_LineString _ = False"

definition edge_is_path :: "geometry \<Rightarrow> bool" where
  "edge_is_path g =
     (case g of
        LineString cs \<Rightarrow> length cs \<ge> 2
      | LinearRing cs \<Rightarrow> length cs \<ge> 2
      | _ \<Rightarrow> False)"

text \<open>Lines 92 to 96: the loop over the edges, \<open>paths\<close> being the list built so far
  (\<^verbatim>\<open>paths.append\<close> adds at the end).\<close>

fun collect_paths :: "shapely \<Rightarrow> geometry list \<Rightarrow> geometry list \<Rightarrow> geometry list" where
  "collect_paths sh paths [] = paths"
| "collect_paths sh paths (g # edges) =
     (if edge_is_path g then
        (let path = simplify sh g 1 in
         if is_valid sh path then collect_paths sh (paths @ [path]) edges
         else collect_paths sh paths edges)
      else collect_paths sh paths edges)"

text \<open>Line 100: the fallback path; lines 98 to 100: the list of paths, or the fallback
  path alone when the list is empty.\<close>

definition fallback_path :: geometry where
  "fallback_path = LineString [(5, 5), (15, 15)]"

definition or_fallback :: "geometry list \<Rightarrow> geometry list" where
  "or_fallback paths = (if length paths = 0 then [fallback_path] else paths)"

text \<open>Lines 89 to 100. \<open>graph\<close> is \<open>None\<close> or a graph.\<close>

definition paths_processing ::
  "shapely \<Rightarrow> 'g osmnx \<Rightarrow> 'g option \<Rightarrow> exception + geometry list" where
  "paths_processing sh ox graph =
     (case graph of
        None \<Rightarrow> Inr (or_fallback [])
      | Some g \<Rightarrow>
          (case graph_to_gdfs ox g of
             Inl e \<Rightarrow> Inl e
           | Inr edges \<Rightarrow> Inr (or_fallback (collect_paths sh [] edges))))"


section \<open>The trimesh operations the program calls\<close>

text \<open>
  A mesh is whatever trimesh makes of it: the type \<open>'m\<close>; \<open>'v\<close> is the type of the
  centroid (a numpy vector), \<open>negative\<close> numpy's unary minus on it; \<open>'fs\<close> is the state
  of the file system. \<open>extrude_polygon\<close> can fail, and both calls stand inside a
  \<^verbatim>\<open>try\<close> block. \<open>concatenate\<close>, \<open>centroid\<close>, \<open>apply_translation\<close> and \<open>export\<close> can
  fail too, and stand outside any \<^verbatim>\<open>try\<close> block: their exception leaves
  \<^verbatim>\<open>generate_3d_model\<close>. \<open>export\<close> returns the file system it leaves, also when it
  raises.
\<close>

record ('m, 'v, 'fs) trimesh =
  extrude_polygon :: "geometry \<Rightarrow> real \<Rightarrow> exception + 'm"
  box :: "real \<times> real \<times> real \<Rightarrow> 'm"
  concatenate :: "'m list \<Rightarrow> exception + 'm"
  is_empty :: "'m \<Rightarrow> bool"
  centroid :: "'m \<Rightarrow> exception + 'v"
  negative :: "'v \<Rightarrow> 'v"
  apply_translation :: "'m \<Rightarrow> 'v \<Rightarrow> exception + 'm"
  export :: "'m \<Rightarrow> string \<Rightarrow> 'fs \<Rightarrow> (exception + unit) \<times> 'fs"

section \<open>\<^verbatim>\<open>generate_3d_model\<close>\<close>

text \<open>Lines 113 to 119: the building mesh, or the box when extrusion raises.\<close>

definition create_building_mesh :: "('m, 'v, 'fs) trimesh \<Rightarrow> geometry \<Rightarrow> 'm" where
  "create_building_mesh tm building_poly =
     (case extrude_polygon tm building_poly 10 of
        Inr building_mesh \<Rightarrow> building_mesh
      | Inl e \<Rightarrow> box tm (20, 20, 10))"

text \<open>Lines 122 to 130: the loop over the paths; an exception of \<^verbatim>\<open>buffer\<close> or of
  \<^verbatim>\<open>extrude_polygon\<close> is caught and the loop goes on with the next path. (The messages
  printed on the console are not part of the model.)\<close>

fun create_path_meshes ::
  "shapely \<Rightarrow> ('m, 'v, 'fs) trimesh \<Rightarrow> 'm list \<Rightarrow> geometry list \<Rightarrow> 'm list" where
  "create_path_meshes sh tm path_meshes [] = path_meshes"
| "create_path_meshes sh tm path_meshes (path # paths) =
     (case buffer sh path (1 / 2) of
        Inl e \<Rightarrow> create_path_meshes sh tm path_meshes paths
      | Inr path_2d \<Rightarrow>
          (case extrude_polygon tm path_2d (3 / 10) of
             Inl e \<Rightarrow> create_path_meshes sh tm path_meshes paths
           | Inr path_mesh \<Rightarrow> create_path_meshes sh tm (path_meshes @ [path_mesh]) paths))"

text \<open>Lines 133 to 136.\<close>

definition combine_meshes :: "('m, 'v, 'fs) trimesh \<Rightarrow> 'm \<Rightarrow> 'm list \<Rightarrow> exception + 'm" where
  "combine_meshes tm building_mesh path_meshes =
     (if path_meshes \<noteq> [] then concatenate tm ([building_mesh] @ path_meshes)
      else Inr building_mesh)"

text \<open>The combined mesh of lines 113 to 136, before the check of line 139.\<close>

definition combined_mesh ::
  "shapely \<Rightarrow> ('m, 'v, 'fs) trimesh \<Rightarrow> geometry \<Rightarrow> geometry list \<Rightarrow> exception + 'm" where
  "combined_mesh sh tm building_poly paths =
     combine_meshes tm (create_building_mesh tm building_poly)
       (create_path_meshes sh tm [] paths)"

text \<open>Lines 147 and 148: translate by the negated centroid, then export.\<close>

definition centre_and_export ::
  "('m, 'v, 'fs) trimesh \<Rightarrow> 'm \<Rightarrow> string \<Rightarrow> 'fs \<Rightarrow> (exception + unit) \<times> 'fs" where
  "centre_and_export tm mesh output_file fs =
     (case centroid tm mesh of
        Inl e \<Rightarrow> (Inl e, fs)
      | Inr c \<Rightarrow>
          (case apply_translation tm mesh (negative tm c) of
             Inl e \<Rightarrow> (Inl e, fs)
           | Inr centred \<Rightarrow> export tm centred output_file fs))"

text \<open>Lines 108 to 149. The function returns the exception it raises, or nothing, and the
  file system it leaves.\<close>

definition generate_3d_model ::
  "shapely \<Rightarrow> ('m, 'v, 'fs) trimesh \<Rightarrow> geometry \<Rightarrow> geometry list \<Rightarrow> string \<Rightarrow> 'fs
     \<Rightarrow> (exception + unit) \<times> 'fs" where
  "generate_3d_model sh tm building_poly paths output_file fs =
     (case combined_mesh sh tm building_poly paths of
        Inl e \<Rightarrow> (Inl e, fs)
      | Inr mesh \<Rightarrow>
          if is_empty tm mesh then (Inl (ValueError ''Final mesh is empty!''), fs)
          else centre_and_export tm mesh output_file fs)"

section \<open>Notions used to state the properties\<close>

text \<open>The number of coordinates a geometry holds, rings counted as stored.\<close>

fun count_coordinates :: "geometry \<Rightarrow> nat" where
  "count_coordinates (Point c) = 1"
| "count_coordinates (LineString cs) = length cs"
| "count_coordinates (LinearRing cs) = length cs"
| "count_coordinates (Polygon shell holes) = length shell + sum_list (map length holes)"
| "count_coordinates (MultiPoint cs) = length cs"
| "count_coordinates (MultiLineString ls) = sum_list (map length ls)"
| "count_coordinates (MultiPolygon parts) =
     sum_list (map (\<lambda>(shell, holes). length shell + sum_list (map length holes)) parts)"
| "count_coordinates (GeometryCollection gs) = sum_list (map count_coordinates gs)"

text \<open>shapely's \<^verbatim>\<open>is_closed\<close>: a curve whose first and last coordinates coincide.\<close>

definition is_closed :: "geometry \<Rightarrow> bool" where
  "is_closed g =
     (case g of
        LineString cs \<Rightarrow> cs \<noteq> [] \<and> hd cs = last cs
      | LinearRing cs \<Rightarrow> cs \<noteq> [] \<and> hd cs = last cs
      | _ \<Rightarrow> False)"

text \<open>The path stage as the specification words it: discard what is not a curve of two
  or more coordinates, simplify each remaining curve with tolerance 1, discard the
  results that are invalid.\<close>

definition simplified_paths :: "shapely \<Rightarrow> geometry list \<Rightarrow> geometry list" where
  "simplified_paths sh edges =
     filter (is_valid sh) (map (\<lambda>g. simplify sh g 1) (filter edge_is_path edges))"

text \<open>What one path contributes to the path meshes: its extruded ribbon, or nothing when
  widening or extrusion raises; and the test that one of the two raises.\<close>

definition path_solids :: "shapely \<Rightarrow> ('m, 'v, 'fs) trimesh \<Rightarrow> geometry \<Rightarrow> 'm list" where
  "path_solids sh tm path =
     (case buffer sh path (1 / 2) of
        Inl e \<Rightarrow> []
      | Inr path_2d \<Rightarrow> (case extrude_polygon tm path_2d (3 / 10) of Inl e \<Rightarrow> [] | Inr m \<Rightarrow> [m]))"

definition path_fails :: "shapely \<Rightarrow> ('m, 'v, 'fs) trimesh \<Rightarrow> geometry \<Rightarrow> bool" where
  "path_fails sh tm path =
     (case buffer sh path (1 / 2) of
        Inl e \<Rightarrow> True
      | Inr path_2d \<Rightarrow> isl (extrude_polygon tm path_2d (3 / 10)))"

section \<open>A small instance of the libraries\<close>

text \<open>
  The properties hold for every record of library operations. To exercise them on
  concrete inputs, this is one executable instance. Polygons are taken as pairwise
  disjoint (their union lists the parts) and their float area is the exact area; a curve
  is valid when it has two distinct points; simplification drops repeated consecutive
  points; widening turns a curve into the rectangle around its first segment. A graph is
  the list of its edge geometries, and the edge table of a graph without edges cannot be
  built, as in osmnx (\<^verbatim>\<open>ValueError: Graph contains no edges.\<close>). A mesh is the list of
  its vertices, with the vertex mean as centroid; a polygon of fewer than three points
  cannot be extruded; the file system maps a path to the mesh written there, and a
  mesh can only be written to a file whose extension names a mesh format.
\<close>

fun polygon_parts :: "geometry \<Rightarrow> (coord list \<times> coord list list) list" where
  "polygon_parts (Polygon shell holes) = [(shell, holes)]"
| "polygon_parts (MultiPolygon parts) = parts"
| "polygon_parts _ = []"

definition sample_union :: "geometry list \<Rightarrow> geometry" where
  "sample_union gs =
     (case concat (map polygon_parts gs) of
        [(shell, holes)] \<Rightarrow> Polygon shell holes
      | parts \<Rightarrow> MultiPolygon parts)"

definition sample_is_valid :: "geometry \<Rightarrow> bool" where
  "sample_is_valid g =
     (case g of
        LineString cs \<Rightarrow> 2 \<le> length (remdups cs)
      | LinearRing cs \<Rightarrow> 2 \<le> length (remdups cs)
      | _ \<Rightarrow> True)"

definition sample_buffer :: "geometry \<Rightarrow> real \<Rightarrow> exception + geometry" where
  "sample_buffer g d =
     (case g of
        LineString (p # q # cs) \<Rightarrow>
          Inr (Polygon [(min (fst p) (fst q) - d, min (snd p) (snd q) - d),
                        (max (fst p) (fst q) + d, min (snd p) (snd q) - d),
                        (max (fst p) (fst q) + d, max (snd p) (snd q) + d),
                        (min (fst p) (fst q) - d, max (snd p) (snd q) + d)] [])
      | Polygon shell holes \<Rightarrow> Inr (Polygon shell holes)
      | _ \<Rightarrow> Inl (LibraryError ''nothing to buffer''))"

definition sample_simplify :: "geometry \<Rightarrow> real \<Rightarrow> geometry" where
  "sample_simplify g tolerance =
     (case g of
        LineString cs \<Rightarrow> LineString (remdups_adj cs)
      | _ \<Rightarrow> g)"

definition sample_shapely :: shapely where
  "sample_shapely =
     \<lparr>unary_union = sample_union, is_valid = sample_is_valid,
      buffer = sample_buffer, simplify = sample_simplify,
      float_area = (\<lambda>g. Finite (area g))\<rparr>"

definition sample_osmnx :: "geometry list osmnx" where
  "sample_osmnx =
     \<lparr>graph_to_gdfs = (\<lambda>g. if g = [] then Inl (ValueError ''Graph contains no edges.'')
                            else Inr g)\<rparr>"

type_synonym vec3 = "real \<times> real \<times> real"

definition vneg :: "vec3 \<Rightarrow> vec3" where
  "vneg v = (case v of (x, y, z) \<Rightarrow> (- x, - y, - z))"

definition vadd :: "vec3 \<Rightarrow> vec3 \<Rightarrow> vec3" where
  "vadd u v = (case u of (a, b, c) \<Rightarrow> (case v of (x, y, z) \<Rightarrow> (a + x, b + y, c + z)))"

definition sample_extrude :: "geometry \<Rightarrow> real \<Rightarrow> exception + vec3 list" where
  "sample_extrude g height =
     (case g of
        Polygon shell holes \<Rightarrow>
          if length shell < 3 then Inl (ValueError ''not enough points'')
          else Inr (map (\<lambda>(x, y). (x, y, 0)) shell @ map (\<lambda>(x, y). (x, y, height)) shell)
      | _ \<Rightarrow> Inl (ValueError ''not a polygon''))"

definition sample_box :: "vec3 \<Rightarrow> vec3 list" where
  "sample_box extents =
     (case extents of (a, b, c) \<Rightarrow>
        [(- a / 2, - b / 2, - c / 2), (a / 2, - b / 2, - c / 2),
         (a / 2, b / 2, - c / 2), (- a / 2, b / 2, - c / 2),
         (- a / 2, - b / 2, c / 2), (a / 2, - b / 2, c / 2),
         (a / 2, b / 2, c / 2), (- a / 2, b / 2, c / 2)])"

definition sample_centroid :: "vec3 list \<Rightarrow> vec3" where
  "sample_centroid m =
     (sum_list (map fst m) / real (length m),
      sum_list (map (\<lambda>p. fst (snd p)) m) / real (length m),
      sum_list (map (\<lambda>p. snd (snd p)) m) / real (length m))"

text \<open>The extension of a file name: what follows its last dot.\<close>

definition file_type :: "string \<Rightarrow> string" where
  "file_type path = rev (takeWhile (\<lambda>c. c \<noteq> CHR ''.'') (rev path))"

definition sample_export ::
  "vec3 list \<Rightarrow> string \<Rightarrow> (string \<rightharpoonup> vec3 list)
     \<Rightarrow> (exception + unit) \<times> (string \<rightharpoonup> vec3 list)" where
  "sample_export m path fs =
     (if file_type path \<in> set [''stl'', ''obj'', ''ply'', ''off'', ''glb'']
      then (Inr (), fs(path \<mapsto> m))
      else (Inl (ValueError ''mesh file type not supported''), fs))"

definition sample_trimesh :: "(vec3 list, vec3, string \<rightharpoonup> vec3 list) trimesh" where
  "sample_trimesh =
     \<lparr>extrude_polygon = sample_extrude, box = sample_box,
      concatenate = (\<lambda>ms. Inr (concat ms)),
      is_empty = (\<lambda>m. m = []), centroid = (\<lambda>m. Inr (sample_centroid m)),
      negative = vneg,
      apply_translation = (\<lambda>m v. Inr (map (\<lambda>p. vadd p v) m)),
      export = sample_export\<rparr>"


section \<open>Auxiliary facts\<close>

lemma collect_paths_acc:
  "collect_paths sh paths edges = paths @ simplified_paths sh edges"
  by (induction edges arbitrary: paths) (simp_all add: simplified_paths_def Let_def)

lemma create_path_meshes_acc:
  "create_path_meshes sh tm acc paths = acc @ concat (map (path_solids sh tm) paths)"
  by (induction paths arbitrary: acc) (simp_all add: path_solids_def split: sum.splits)

lemma py_gt_trans: "py_gt a b \<Longrightarrow> py_gt b c \<Longrightarrow> py_gt a c"
  by (cases a; cases b; cases c) simp_all

lemma py_gt_not_NaN: "py_gt a b \<Longrightarrow> a \<noteq> NaN \<and> b \<noteq> NaN"
  by (cases a; cases b) simp_all

lemma py_gt_above: "\<not> py_gt a b \<Longrightarrow> py_gt c b \<Longrightarrow> a \<noteq> NaN \<Longrightarrow> py_gt c a"
  by (cases a; cases b; cases c) simp_all

lemma max_loop_NaN: "max_loop key m NaN items = m"
  by (induction items) (simp_all add: Let_def)

lemma max_loop_split:
  assumes "key m \<noteq> NaN"
  shows "\<exists>pre r post. m # items = pre @ r # post
           \<and> max_loop key m (key m) items = r
           \<and> (\<forall>x \<in> set (m # items). \<not> py_gt (key x) (key r))
           \<and> (\<forall>x \<in> set pre. py_gt (key r) (key x) \<or> key x = NaN)"
  using assms
proof (induction items arbitrary: m)
  case Nil
  have "[m] = [] @ m # []" by simp
  moreover have "\<not> py_gt (key m) (key m)" by (cases "key m") simp_all
  ultimately show ?case by (intro exI [of _ "[]"] exI [of _ m]) simp
next
  case (Cons x xs)
  show ?case
  proof (cases "py_gt (key x) (key m)")
    case True
    then have xn: "key x \<noteq> NaN" using py_gt_not_NaN by blast
    from Cons.IH [OF xn] obtain pre r post where s: "x # xs = pre @ r # post"
      and r: "max_loop key x (key x) xs = r"
      and top: "\<forall>y \<in> set (x # xs). \<not> py_gt (key y) (key r)"
      and low: "\<forall>y \<in> set pre. py_gt (key r) (key y) \<or> key y = NaN"
      by blast
    have rx: "r = x \<or> py_gt (key r) (key x)"
    proof (cases pre)
      case Nil with s show ?thesis by simp
    next
      case (Cons p ps)
      with s have "x \<in> set pre" by simp
      with low xn show ?thesis by blast
    qed
    then have rm: "py_gt (key r) (key m)" using True py_gt_trans by blast
    have nm: "\<not> py_gt (key m) (key r)"
    proof
      assume "py_gt (key m) (key r)"
      with rm have "py_gt (key r) (key r)" using py_gt_trans by blast
      then show False by (cases "key r") simp_all
    qed
    have a: "m # x # xs = (m # pre) @ r # post" using s by simp
    have b: "max_loop key m (key m) (x # xs) = r" using True r by simp
    have c: "\<forall>y \<in> set (m # x # xs). \<not> py_gt (key y) (key r)" using top nm by simp
    have d: "\<forall>y \<in> set (m # pre). py_gt (key r) (key y) \<or> key y = NaN" using low rm by simp
    from a b c d show ?thesis by blast
  next
    case False
    from Cons.IH [OF Cons.prems] obtain pre r post where s: "m # xs = pre @ r # post"
      and r: "max_loop key m (key m) xs = r"
      and top: "\<forall>y \<in> set (m # xs). \<not> py_gt (key y) (key r)"
      and low: "\<forall>y \<in> set pre. py_gt (key r) (key y) \<or> key y = NaN"
      by blast
    have b: "max_loop key m (key m) (x # xs) = r" using False r by simp
    show ?thesis
    proof (cases pre)
      case Nil
      with s have rm: "r = m" and post: "post = xs" by simp_all
      have a: "m # x # xs = [] @ r # (x # xs)" using rm by simp
      have c: "\<forall>y \<in> set (m # x # xs). \<not> py_gt (key y) (key r)"
        using top False rm by simp
      from a b c show ?thesis by (intro exI [of _ "[]"] exI [of _ r] exI [of _ "x # xs"]) simp
    next
      case (Cons p ps)
      with s have pm: "p = m" and s': "xs = ps @ r # post" by simp_all
      from low Cons pm Cons.prems have rm: "py_gt (key r) (key m)" by simp
      have nx: "\<not> py_gt (key x) (key r)"
      proof
        assume "py_gt (key x) (key r)"
        with rm have "py_gt (key x) (key m)" using py_gt_trans by blast
        with False show False by simp
      qed
      have lx: "py_gt (key r) (key x) \<or> key x = NaN"
        using py_gt_above [OF False rm] by blast
      have a: "m # x # xs = (m # x # ps) @ r # post" using s' by simp
      have c: "\<forall>y \<in> set (m # x # xs). \<not> py_gt (key y) (key r)" using top nx by simp
      have d: "\<forall>y \<in> set (m # x # ps). py_gt (key r) (key y) \<or> key y = NaN"
        using low lx Cons pm by simp
      from a b c d show ?thesis by blast
    qed
  qed
qed

lemma max_loop_first_max:
  "\<exists>i \<le> length items.
     max_loop key m (key m) items = (m # items) ! i
     \<and> (\<forall>j \<le> length items. \<not> py_gt (key ((m # items) ! j)) (key ((m # items) ! i)))
     \<and> (\<forall>j < i. py_gt (key ((m # items) ! i)) (key ((m # items) ! j))
                  \<or> key ((m # items) ! j) = NaN)"
proof (cases "key m = NaN")
  case True
  then have "max_loop key m (key m) items = (m # items) ! 0" by (simp add: max_loop_NaN)
  moreover have "\<forall>j \<le> length items. \<not> py_gt (key ((m # items) ! j)) (key ((m # items) ! 0))"
    using True by (simp add: py_gt_not_NaN [THEN conjunct2, of _ NaN, simplified])
  ultimately show ?thesis by (intro exI [of _ 0]) simp
next
  case False
  from max_loop_split [of key m items] False obtain pre r post
    where s: "m # items = pre @ r # post"
      and r: "max_loop key m (key m) items = r"
      and top: "\<forall>x \<in> set (m # items). \<not> py_gt (key x) (key r)"
      and low: "\<forall>x \<in> set pre. py_gt (key r) (key x) \<or> key x = NaN"
    by blast
  let ?i = "length pre"
  from s have len: "Suc (length items) = length pre + Suc (length post)"
    by (metis length_Cons length_append)
  have ri: "(m # items) ! ?i = r" unfolding s by simp
  have a: "?i \<le> length items" using len by simp
  have c: "\<forall>j \<le> length items. \<not> py_gt (key ((m # items) ! j)) (key ((m # items) ! ?i))"
  proof (intro allI impI)
    fix j assume "j \<le> length items"
    then have "(m # items) ! j \<in> set (m # items)" by (intro nth_mem) simp
    with top show "\<not> py_gt (key ((m # items) ! j)) (key ((m # items) ! ?i))"
      unfolding ri by blast
  qed
  have d: "\<forall>j < ?i. py_gt (key ((m # items) ! ?i)) (key ((m # items) ! j))
                  \<or> key ((m # items) ! j) = NaN"
  proof (intro allI impI)
    fix j assume j: "j < ?i"
    then have "(m # items) ! j = pre ! j" unfolding s by (simp add: nth_append)
    moreover from j have "pre ! j \<in> set pre" by simp
    ultimately show "py_gt (key ((m # items) ! ?i)) (key ((m # items) ! j))
                  \<or> key ((m # items) ! j) = NaN"
      using low unfolding ri by simp
  qed
  from a r ri c d show ?thesis by (intro exI [of _ ?i]) simp
qed






lemma sample_simplify_valid:
  "sample_is_valid g \<Longrightarrow> sample_is_valid (sample_simplify g t)"
  by (cases g) (simp_all add: sample_is_valid_def sample_simplify_def length_remdups_card_conv)

lemma sample_buffer_valid:
  "sample_buffer g d = Inr r \<Longrightarrow> sample_is_valid r"
  by (auto simp: sample_buffer_def sample_is_valid_def split: geometry.splits list.splits)

section \<open>Properties\<close>




text \<open>
  Claim C3. For an empty collection of footprints the result is the fixed square with
  corners (0,0), (20,0), (20,20), (0,20), whatever the library's union, repair and
  simplification operations are (none of them is applied), and its area is exactly 400.
\<close>

theorem C3_empty_buildings_fallback_square:
  "buildings_processing sh [] = Inr (Polygon [(0, 0), (20, 0), (20, 20), (0, 20)] [])
   \<and> area (Polygon [(0, 0), (20, 0), (20, 20), (0, 20)] []) = 400"
  by (simp add: buildings_processing_def fallback_building_def polygon_area_def ring_area_def)



text \<open>
  Claim C5. When the extrusion of the footprint to height 10 raises, the building mesh
  is the box of extents 20 by 20 by 10 and the combined mesh is built from that box: the
  exception of the extrusion does not leave the function.
\<close>

theorem C5_building_extrusion_failure_gives_box:
  assumes "extrude_polygon tm building_poly 10 = Inl e"
  shows "create_building_mesh tm building_poly = box tm (20, 20, 10)
    \<and> combined_mesh sh tm building_poly paths
        = combine_meshes tm (box tm (20, 20, 10)) (create_path_meshes sh tm [] paths)"
  using assms
  by (simp add: create_building_mesh_def combined_mesh_def)

text \<open>
  A footprint that is not a polygon cannot be extruded by the sample library.
\<close>

theorem C5_witness_non_polygon_building:
  "extrude_polygon sample_trimesh (LineString [(0, 0), (1, 1)]) 10 = Inl (ValueError ''not a polygon'')
   \<and> create_building_mesh sample_trimesh (LineString [(0, 0), (1, 1)]) = box sample_trimesh (20, 20, 10)
   \<and> combined_mesh sample_shapely sample_trimesh (LineString [(0, 0), (1, 1)]) []
        = combine_meshes sample_trimesh (box sample_trimesh (20, 20, 10))
            (create_path_meshes sample_shapely sample_trimesh [] [])"
proof -
  have h: "extrude_polygon sample_trimesh (LineString [(0, 0), (1, 1)]) 10
             = Inl (ValueError ''not a polygon'')"
    by (simp add: sample_trimesh_def sample_extrude_def)
  note t = C5_building_extrusion_failure_gives_box [OF h, of sample_shapely "[]"]
  show ?thesis
    by (rule conjI [OF h conjI [OF t [THEN conjunct1] t [THEN conjunct2]]])
qed

text \<open>
  Claim C6. When the widening by 0.5 or the extrusion to height 0.3 raises for one path,
  the path meshes are those of the paths before it followed by those of the paths after
  it: only that path is left out, the loop goes on, and \<^verbatim>\<open>generate_3d_model\<close> behaves
  as if the path had not been in the list.
\<close>

theorem C6_failing_path_is_skipped:
  assumes "path_fails sh tm path"
  shows "create_path_meshes sh tm [] (before @ path # after)
           = create_path_meshes sh tm [] before @ create_path_meshes sh tm [] after
    \<and> create_path_meshes sh tm [] (before @ path # after)
           = create_path_meshes sh tm [] (before @ after)
    \<and> generate_3d_model sh tm building_poly (before @ path # after) output_file fs
           = generate_3d_model sh tm building_poly (before @ after) output_file fs"
proof -
  from assms have "path_solids sh tm path = []"
    by (auto simp: path_fails_def path_solids_def split: sum.splits)
  then have a: "create_path_meshes sh tm [] (before @ path # after)
           = create_path_meshes sh tm [] before @ create_path_meshes sh tm [] after"
    and b: "create_path_meshes sh tm [] (before @ path # after)
           = create_path_meshes sh tm [] (before @ after)"
    by (simp_all add: create_path_meshes_acc)
  from b have "combined_mesh sh tm building_poly (before @ path # after)
                 = combined_mesh sh tm building_poly (before @ after)"
    by (simp add: combined_mesh_def)
  then have "generate_3d_model sh tm building_poly (before @ path # after) output_file fs
           = generate_3d_model sh tm building_poly (before @ after) output_file fs"
    by (simp add: generate_3d_model_def)
  with a b show ?thesis by simp
qed

text \<open>
  An empty curve between two segments: two path meshes come out.
\<close>

theorem C6_witness_middle_path_fails:
  "path_fails sample_shapely sample_trimesh (LineString [])
   \<and> create_path_meshes sample_shapely sample_trimesh []
        [LineString [(0, 0), (4, 0)], LineString [], LineString [(0, 0), (0, 4)]]
      = create_path_meshes sample_shapely sample_trimesh [] [LineString [(0, 0), (4, 0)]]
        @ create_path_meshes sample_shapely sample_trimesh [] [LineString [(0, 0), (0, 4)]]
   \<and> length (create_path_meshes sample_shapely sample_trimesh []
        [LineString [(0, 0), (4, 0)], LineString [], LineString [(0, 0), (0, 4)]]) = 2"
proof -
  have h: "path_fails sample_shapely sample_trimesh (LineString [])"
    by (simp add: path_fails_def sample_shapely_def sample_buffer_def)
  have l: "length (create_path_meshes sample_shapely sample_trimesh []
        [LineString [(0, 0), (4, 0)], LineString [], LineString [(0, 0), (0, 4)]]) = 2"
    by (simp add: sample_shapely_def sample_buffer_def sample_trimesh_def sample_extrude_def)
  from C6_failing_path_is_skipped [OF h, of "[LineString [(0, 0), (4, 0)]]"
      "[LineString [(0, 0), (0, 4)]]" fallback_building "''map.stl''" Map.empty] h l
  show ?thesis by simp
qed

text \<open>
  Claim C7. When the union of a non-empty collection of footprints is a multi-polygon,
  the part that is selected is one of the parts, no part has an area greater than its
  area, and every part before it in the order of \<^verbatim>\<open>geoms\<close> has a smaller area (or an
  area that is NaN): among parts of equal largest area the first one is taken. Areas are
  the floats that shapely returns, compared as Python compares them. The result of the
  buildings stage is the selected part, repaired and simplified.
\<close>

theorem C7_largest_part_first_on_ties:
  assumes "buildings \<noteq> []"
    and "unary_union sh buildings = MultiPolygon parts"
    and "parts \<noteq> []"
  shows "\<exists>i < length parts.
           select_building sh (MultiPolygon parts) = Inr (geoms parts ! i)
         \<and> (\<forall>j < length parts.
               \<not> py_gt (float_area sh (geoms parts ! j)) (float_area sh (geoms parts ! i)))
         \<and> (\<forall>j < i. py_gt (float_area sh (geoms parts ! i)) (float_area sh (geoms parts ! j))
                      \<or> float_area sh (geoms parts ! j) = NaN)
         \<and> buildings_processing sh buildings = clean_geometry sh (geoms parts ! i)"
proof -
  let ?key = "float_area sh"
  from assms(3) obtain p ps where parts: "parts = p # ps" by (cases parts) auto
  obtain m where m: "geoms parts = m # geoms ps" by (simp add: parts geoms_def)
  have len: "length (geoms ps) = length ps" by (simp add: geoms_def)
  from max_loop_first_max [of "geoms ps" ?key m]
  obtain i where i: "i \<le> length (geoms ps)"
    "max_loop ?key m (?key m) (geoms ps) = (m # geoms ps) ! i"
    "\<forall>j \<le> length (geoms ps). \<not> py_gt (?key ((m # geoms ps) ! j)) (?key ((m # geoms ps) ! i))"
    "\<forall>j < i. py_gt (?key ((m # geoms ps) ! i)) (?key ((m # geoms ps) ! j))
               \<or> ?key ((m # geoms ps) ! j) = NaN"
    by blast
  have sel: "select_building sh (MultiPolygon parts) = Inr (geoms parts ! i)"
    using i(2) by (simp add: select_building_def py_max_def m)
  have il: "i < length parts" using i(1) by (simp add: parts len)
  have mx: "\<forall>j < length parts.
              \<not> py_gt (?key (geoms parts ! j)) (?key (geoms parts ! i))"
  proof (intro allI impI)
    fix j assume "j < length parts"
    then have "j \<le> length (geoms ps)" by (simp add: parts len)
    with i(3) show "\<not> py_gt (?key (geoms parts ! j)) (?key (geoms parts ! i))"
      unfolding m by blast
  qed
  have fst: "\<forall>j < i. py_gt (?key (geoms parts ! i)) (?key (geoms parts ! j))
                     \<or> ?key (geoms parts ! j) = NaN"
    using i(4) unfolding m by blast
  have bp: "buildings_processing sh buildings = clean_geometry sh (geoms parts ! i)"
    using assms(1,2) sel by (simp add: buildings_processing_def)
  from il sel mx fst bp show ?thesis by blast
qed

text \<open>
  Three disjoint squares of areas 4, 9 and 9: the first square of area 9 is selected.
\<close>

theorem C7_witness_tie_takes_first:
  "[Polygon [(0, 0), (2, 0), (2, 2), (0, 2)] [],
    Polygon [(10, 0), (13, 0), (13, 3), (10, 3)] [],
    Polygon [(20, 0), (23, 0), (23, 3), (20, 3)] []] \<noteq> []
   \<and> unary_union sample_shapely
        [Polygon [(0, 0), (2, 0), (2, 2), (0, 2)] [],
         Polygon [(10, 0), (13, 0), (13, 3), (10, 3)] [],
         Polygon [(20, 0), (23, 0), (23, 3), (20, 3)] []]
      = MultiPolygon [([(0, 0), (2, 0), (2, 2), (0, 2)], []),
                      ([(10, 0), (13, 0), (13, 3), (10, 3)], []),
                      ([(20, 0), (23, 0), (23, 3), (20, 3)], [])]
   \<and> [([(0::real, 0::real), (2, 0), (2, 2), (0, 2)], []::coord list list),
                      ([(10, 0), (13, 0), (13, 3), (10, 3)], []),
                      ([(20, 0), (23, 0), (23, 3), (20, 3)], [])] \<noteq> []
   \<and> select_building sample_shapely
        (MultiPolygon [([(0, 0), (2, 0), (2, 2), (0, 2)], []),
                      ([(10, 0), (13, 0), (13, 3), (10, 3)], []),
                      ([(20, 0), (23, 0), (23, 3), (20, 3)], [])])
      = Inr (Polygon [(10, 0), (13, 0), (13, 3), (10, 3)] [])
   \<and> float_area sample_shapely (Polygon [(10, 0), (13, 0), (13, 3), (10, 3)] [])
      = float_area sample_shapely (Polygon [(20, 0), (23, 0), (23, 3), (20, 3)] [])
   \<and> (\<exists>i < length [([(0::real, 0::real), (2, 0), (2, 2), (0, 2)], []::coord list list),
                      ([(10, 0), (13, 0), (13, 3), (10, 3)], []),
                      ([(20, 0), (23, 0), (23, 3), (20, 3)], [])].
           select_building sample_shapely
             (MultiPolygon [([(0, 0), (2, 0), (2, 2), (0, 2)], []),
                      ([(10, 0), (13, 0), (13, 3), (10, 3)], []),
                      ([(20, 0), (23, 0), (23, 3), (20, 3)], [])])
            = Inr (geoms [([(0, 0), (2, 0), (2, 2), (0, 2)], []),
                      ([(10, 0), (13, 0), (13, 3), (10, 3)], []),
                      ([(20, 0), (23, 0), (23, 3), (20, 3)], [])] ! i)
         \<and> (\<forall>j < length [([(0::real, 0::real), (2, 0), (2, 2), (0, 2)], []::coord list list),
                      ([(10, 0), (13, 0), (13, 3), (10, 3)], []),
                      ([(20, 0), (23, 0), (23, 3), (20, 3)], [])].
               \<not> py_gt (float_area sample_shapely
                          (geoms [([(0, 0), (2, 0), (2, 2), (0, 2)], []),
                      ([(10, 0), (13, 0), (13, 3), (10, 3)], []),
                      ([(20, 0), (23, 0), (23, 3), (20, 3)], [])] ! j))
                        (float_area sample_shapely
                          (geoms [([(0, 0), (2, 0), (2, 2), (0, 2)], []),
                      ([(10, 0), (13, 0), (13, 3), (10, 3)], []),
                      ([(20, 0), (23, 0), (23, 3), (20, 3)], [])] ! i)))
         \<and> (\<forall>j < i.
               py_gt (float_area sample_shapely
                        (geoms [([(0, 0), (2, 0), (2, 2), (0, 2)], []),
                      ([(10, 0), (13, 0), (13, 3), (10, 3)], []),
                      ([(20, 0), (23, 0), (23, 3), (20, 3)], [])] ! i))
                     (float_area sample_shapely
                        (geoms [([(0, 0), (2, 0), (2, 2), (0, 2)], []),
                      ([(10, 0), (13, 0), (13, 3), (10, 3)], []),
                      ([(20, 0), (23, 0), (23, 3), (20, 3)], [])] ! j))
               \<or> float_area sample_shapely
                        (geoms [([(0, 0), (2, 0), (2, 2), (0, 2)], []),
                      ([(10, 0), (13, 0), (13, 3), (10, 3)], []),
                      ([(20, 0), (23, 0), (23, 3), (20, 3)], [])] ! j) = NaN)
         \<and> buildings_processing sample_shapely
               [Polygon [(0, 0), (2, 0), (2, 2), (0, 2)] [],
                Polygon [(10, 0), (13, 0), (13, 3), (10, 3)] [],
                Polygon [(20, 0), (23, 0), (23, 3), (20, 3)] []]
            = clean_geometry sample_shapely
                (geoms [([(0, 0), (2, 0), (2, 2), (0, 2)], []),
                      ([(10, 0), (13, 0), (13, 3), (10, 3)], []),
                      ([(20, 0), (23, 0), (23, 3), (20, 3)], [])] ! i))"
proof -
  let ?A = "[(0::real, 0::real), (2, 0), (2, 2), (0, 2)]"
  let ?B = "[(10::real, 0::real), (13, 0), (13, 3), (10, 3)]"
  let ?C = "[(20::real, 0::real), (23, 0), (23, 3), (20, 3)]"
  let ?bs = "[Polygon ?A [], Polygon ?B [], Polygon ?C []]"
  let ?ps = "[(?A, []::coord list list), (?B, []), (?C, [])]"
  have h1: "?bs \<noteq> []" by simp
  have h2: "unary_union sample_shapely ?bs = MultiPolygon ?ps"
    by (simp add: sample_shapely_def sample_union_def)
  have h3: "?ps \<noteq> []" by simp
  have a1: "float_area sample_shapely (Polygon ?A []) = Finite 4"
    by (simp add: sample_shapely_def polygon_area_def ring_area_def)
  have a2: "float_area sample_shapely (Polygon ?B []) = Finite 9"
    by (simp add: sample_shapely_def polygon_area_def ring_area_def)
  have a3: "float_area sample_shapely (Polygon ?C []) = Finite 9"
    by (simp add: sample_shapely_def polygon_area_def ring_area_def)
  have s: "select_building sample_shapely (MultiPolygon ?ps) = Inr (Polygon ?B [])"
    by (simp add: select_building_def py_max_def geoms_def a1 a2 a3)
  have e: "float_area sample_shapely (Polygon ?B []) = float_area sample_shapely (Polygon ?C [])"
    unfolding a2 a3 ..
  show ?thesis
    by (rule conjI [OF h1 conjI [OF h2 conjI [OF h3 conjI [OF s conjI [OF e
          C7_largest_part_first_on_ties [OF h1 h2 h3]]]]]])
qed

text \<open>
  Claim C9. The loop over the edges computes what the specification words: the edges
  that pass the test of line 93, each simplified with tolerance 1, those results kept
  that are valid. An edge of fewer than 2 coordinates fails the test and is discarded; an
  admitted edge whose simplification is invalid is discarded; an admitted edge whose
  simplification is valid contributes exactly that simplification. Every collected curve
  is valid, and so is every curve of the stage's output for a graph whose edge table is
  built, provided the library finds the fallback curve valid.
\<close>

theorem C9_path_loop:
  "collect_paths sh [] edges
     = filter (is_valid sh) (map (\<lambda>g. simplify sh g 1) (filter edge_is_path edges))
   \<and> (count_coordinates short < 2 \<longrightarrow>
        \<not> edge_is_path short
        \<and> collect_paths sh paths (short # rest) = collect_paths sh paths rest)
   \<and> (edge_is_path bad \<and> \<not> is_valid sh (simplify sh bad 1) \<longrightarrow>
        collect_paths sh paths (bad # rest) = collect_paths sh paths rest)
   \<and> (edge_is_path good \<and> is_valid sh (simplify sh good 1) \<longrightarrow>
        collect_paths sh paths (good # rest)
          = collect_paths sh (paths @ [simplify sh good 1]) rest)
   \<and> list_all (is_valid sh) (collect_paths sh [] edges)
   \<and> (is_valid sh (LineString [(5, 5), (15, 15)]) \<and> graph_to_gdfs ox graph = Inr edges \<longrightarrow>
        paths_processing sh ox (Some graph) = Inr (or_fallback (collect_paths sh [] edges))
        \<and> list_all (is_valid sh) (or_fallback (collect_paths sh [] edges)))"
proof -
  have a: "collect_paths sh [] edges
     = filter (is_valid sh) (map (\<lambda>g. simplify sh g 1) (filter edge_is_path edges))"
    by (simp add: collect_paths_acc simplified_paths_def)
  have b: "\<not> edge_is_path short" if "count_coordinates short < 2"
    using that by (cases short) (simp_all add: edge_is_path_def)
  have c: "list_all (is_valid sh) (collect_paths sh [] edges)"
    unfolding a by (simp add: list_all_iff)
  have d: "list_all (is_valid sh) (or_fallback (collect_paths sh [] edges))"
    if "is_valid sh (LineString [(5, 5), (15, 15)])"
    using that c by (simp add: or_fallback_def fallback_path_def)
  have e: "paths_processing sh ox (Some graph) = Inr (or_fallback (collect_paths sh [] edges))"
    if "graph_to_gdfs ox graph = Inr edges"
    using that by (simp add: paths_processing_def)
  from a b c d e show ?thesis by (simp add: Let_def)
qed

text \<open>
  A point, a curve that collapses to one point, and a curve with a repeated point.
\<close>

theorem C9_witness_three_edges:
  "count_coordinates (Point (1, 1)) < 2
   \<and> edge_is_path (LineString [(1, 1), (1, 1)])
   \<and> \<not> is_valid sample_shapely (simplify sample_shapely (LineString [(1, 1), (1, 1)]) 1)
   \<and> edge_is_path (LineString [(0, 0), (0, 0), (3, 0)])
   \<and> is_valid sample_shapely (simplify sample_shapely (LineString [(0, 0), (0, 0), (3, 0)]) 1)
   \<and> is_valid sample_shapely (LineString [(5, 5), (15, 15)])
   \<and> graph_to_gdfs sample_osmnx
        [Point (1, 1), LineString [(1, 1), (1, 1)], LineString [(0, 0), (0, 0), (3, 0)]]
      = Inr [Point (1, 1), LineString [(1, 1), (1, 1)], LineString [(0, 0), (0, 0), (3, 0)]]
   \<and> collect_paths sample_shapely []
        [Point (1, 1), LineString [(1, 1), (1, 1)], LineString [(0, 0), (0, 0), (3, 0)]]
      = [LineString [(0, 0), (3, 0)]]
   \<and> paths_processing sample_shapely sample_osmnx
        (Some [Point (1, 1), LineString [(1, 1), (1, 1)], LineString [(0, 0), (0, 0), (3, 0)]])
      = Inr [LineString [(0, 0), (3, 0)]]
   \<and> list_all (is_valid sample_shapely) [LineString [(0, 0), (3, 0)]]"
proof -
  let ?es = "[Point (1, 1), LineString [(1, 1), (1, 1)], LineString [(0, 0), (0, 0), (3, 0)]]"
  have h1: "count_coordinates (Point (1, 1)) < 2" by simp
  have h2: "edge_is_path (LineString [(1, 1), (1, 1)])" by (simp add: edge_is_path_def)
  have h3: "\<not> is_valid sample_shapely (simplify sample_shapely (LineString [(1, 1), (1, 1)]) 1)"
    by (simp add: sample_shapely_def sample_is_valid_def sample_simplify_def)
  have h4: "edge_is_path (LineString [(0, 0), (0, 0), (3, 0)])" by (simp add: edge_is_path_def)
  have h5: "is_valid sample_shapely (simplify sample_shapely (LineString [(0, 0), (0, 0), (3, 0)]) 1)"
    by (simp add: sample_shapely_def sample_is_valid_def sample_simplify_def)
  have h6: "is_valid sample_shapely (LineString [(5, 5), (15, 15)])"
    by (simp add: sample_shapely_def sample_is_valid_def)
  have h7: "graph_to_gdfs sample_osmnx ?es = Inr ?es"
    by (simp add: sample_osmnx_def)
  note t = C9_path_loop [where sh = sample_shapely and edges = ?es and short = "Point (1, 1)"
      and paths = "[]" and rest = "[]" and bad = "LineString [(1, 1), (1, 1)]"
      and good = "LineString [(0, 0), (0, 0), (3, 0)]" and ox = sample_osmnx and graph = ?es]
  from t have eq: "collect_paths sample_shapely [] ?es
     = filter (is_valid sample_shapely)
         (map (\<lambda>g. simplify sample_shapely g 1) (filter edge_is_path ?es))"
    by (rule conjunct1)
  have ev: "filter (is_valid sample_shapely)
         (map (\<lambda>g. simplify sample_shapely g 1) (filter edge_is_path ?es))
       = [LineString [(0, 0), (3, 0)]]"
    by (simp add: edge_is_path_def sample_shapely_def sample_is_valid_def sample_simplify_def)
  have r: "collect_paths sample_shapely [] ?es = [LineString [(0, 0), (3, 0)]]"
    using eq ev by (rule trans)
  have of: "or_fallback [LineString [(0, 0), (3, 0)]] = [LineString [(0, 0), (3, 0)]]"
    by (simp add: or_fallback_def)
  from t h6 h7 have "paths_processing sample_shapely sample_osmnx (Some ?es)
        = Inr (or_fallback (collect_paths sample_shapely [] ?es))
      \<and> list_all (is_valid sample_shapely) (or_fallback (collect_paths sample_shapely [] ?es))"
    by blast
  then have p: "paths_processing sample_shapely sample_osmnx (Some ?es)
        = Inr [LineString [(0, 0), (3, 0)]]"
    and v: "list_all (is_valid sample_shapely) [LineString [(0, 0), (3, 0)]]"
    unfolding r of by simp_all
  show ?thesis
    by (rule conjI [OF h1 conjI [OF h2 conjI [OF h3 conjI [OF h4 conjI [OF h5 conjI [OF h6
          conjI [OF h7 conjI [OF r conjI [OF p v]]]]]]]]])
qed

text \<open>
  Claim C10, as amended. The test of line 93 admits exactly the instances of
  \<open>LineString\<close> (the class or its subclass \<open>LinearRing\<close>) that hold 2 or more
  coordinates, whether the curve is open or closed; an edge of any other class, a
  multi-part curve included, is discarded however many coordinates it holds.
\<close>

theorem C10_only_line_strings_admitted:
  "edge_is_path g = (isinstance_LineString g \<and> 2 \<le> count_coordinates g)
   \<and> (\<not> isinstance_LineString g \<longrightarrow>
        \<not> edge_is_path g
        \<and> collect_paths sh paths (g # edges) = collect_paths sh paths edges)"
  by (cases g) (simp_all add: edge_is_path_def)

text \<open>
  A multi-part curve of four coordinates is discarded.
\<close>

theorem C10_witness_multi_line_string:
  "\<not> isinstance_LineString (MultiLineString [[(0, 0), (1, 1)], [(2, 2), (3, 3)]])
   \<and> 2 \<le> count_coordinates (MultiLineString [[(0, 0), (1, 1)], [(2, 2), (3, 3)]])
   \<and> \<not> edge_is_path (MultiLineString [[(0, 0), (1, 1)], [(2, 2), (3, 3)]])
   \<and> collect_paths sample_shapely []
        [MultiLineString [[(0, 0), (1, 1)], [(2, 2), (3, 3)]], LineString [(0, 0), (3, 0)]]
      = collect_paths sample_shapely [] [LineString [(0, 0), (3, 0)]]"
proof -
  have h: "\<not> isinstance_LineString (MultiLineString [[(0, 0), (1, 1)], [(2, 2), (3, 3)]])"
    by simp
  have n: "2 \<le> count_coordinates (MultiLineString [[(0, 0), (1, 1)], [(2, 2), (3, 3)]])"
    by simp
  from C10_only_line_strings_admitted
    [of "MultiLineString [[(0, 0), (1, 1)], [(2, 2), (3, 3)]]" sample_shapely "[]"
        "[LineString [(0, 0), (3, 0)]]"] h
  have "\<not> edge_is_path (MultiLineString [[(0, 0), (1, 1)], [(2, 2), (3, 3)]])
   \<and> collect_paths sample_shapely []
        [MultiLineString [[(0, 0), (1, 1)], [(2, 2), (3, 3)]], LineString [(0, 0), (3, 0)]]
      = collect_paths sample_shapely [] [LineString [(0, 0), (3, 0)]]"
    by blast
  with h n show ?thesis by blast
qed

text \<open>
  The claim as first stated says that only open curves are admitted. A closed curve,
  the triangle from (0,0) back to (0,0), passes the test and is returned.
\<close>

theorem C10_counterexample_closed_line_string:
  "edge_is_path (LineString [(0, 0), (4, 0), (4, 4), (0, 0)])
   \<and> is_closed (LineString [(0, 0), (4, 0), (4, 4), (0, 0)])
   \<and> paths_processing sample_shapely sample_osmnx
        (Some [LineString [(0, 0), (4, 0), (4, 4), (0, 0)]])
      = Inr [LineString [(0, 0), (4, 0), (4, 4), (0, 0)]]"
  by (simp add: edge_is_path_def is_closed_def paths_processing_def or_fallback_def
      sample_osmnx_def sample_shapely_def sample_is_valid_def sample_simplify_def)

text \<open>
  A further property of the buildings stage. Validity is tested, and repaired by
  \<^verbatim>\<open>buffer(0)\<close>, before the simplification and not after it. So for a library whose
  simplification keeps a valid geometry valid and whose \<^verbatim>\<open>buffer(0)\<close> returns a valid
  geometry, a result of the stage on a non-empty collection is valid; it is the
  simplification with tolerance 2 of the selected part, or of its repair.
\<close>

theorem buildings_result_valid_under_library_contract:
  assumes "\<forall>g t. is_valid sh g \<longrightarrow> is_valid sh (simplify sh g t)"
    and "\<forall>g r. buffer sh g 0 = Inr r \<longrightarrow> is_valid sh r"
    and "buildings \<noteq> []"
    and "buildings_processing sh buildings = Inr building_poly"
  shows "is_valid sh building_poly
    \<and> (\<exists>p. select_building sh (unary_union sh buildings) = Inr p
           \<and> (if is_valid sh p then building_poly = simplify sh p 2
               else \<exists>r. buffer sh p 0 = Inr r \<and> building_poly = simplify sh r 2))"
proof -
  from assms(3,4) obtain p where p: "select_building sh (unary_union sh buildings) = Inr p"
    and c: "clean_geometry sh p = Inr building_poly"
    by (auto simp: buildings_processing_def split: sum.splits)
  show ?thesis
  proof (cases "is_valid sh p")
    case True
    with c have b: "building_poly = simplify sh p 2" by (simp add: clean_geometry_def)
    with True assms(1) have "is_valid sh building_poly" by blast
    with p b True show ?thesis by auto
  next
    case False
    with c obtain r where r: "buffer sh p 0 = Inr r" and b: "building_poly = simplify sh r 2"
      by (auto simp: clean_geometry_def split: sum.splits)
    from r assms(2) have "is_valid sh r" by blast
    with b assms(1) have "is_valid sh building_poly" by blast
    with p b r False show ?thesis by auto
  qed
qed

text \<open>
  One square footprint with the sample library.
\<close>

theorem buildings_result_valid_witness:
  "[Polygon [(0, 0), (10, 0), (10, 10), (0, 10)] []] \<noteq> []
   \<and> buildings_processing sample_shapely [Polygon [(0, 0), (10, 0), (10, 10), (0, 10)] []]
        = Inr (Polygon [(0, 0), (10, 0), (10, 10), (0, 10)] [])
   \<and> is_valid sample_shapely (Polygon [(0, 0), (10, 0), (10, 10), (0, 10)] [])"
proof -
  have h1: "\<forall>g t. is_valid sample_shapely g \<longrightarrow> is_valid sample_shapely (simplify sample_shapely g t)"
    by (simp add: sample_shapely_def sample_simplify_valid)
  have h2: "\<forall>g r. buffer sample_shapely g 0 = Inr r \<longrightarrow> is_valid sample_shapely r"
    using sample_buffer_valid by (simp add: sample_shapely_def)
  have h3: "[Polygon [(0, 0), (10, 0), (10, 10), (0, 10)] []] \<noteq> []" by simp
  have h4: "buildings_processing sample_shapely [Polygon [(0, 0), (10, 0), (10, 10), (0, 10)] []]
        = Inr (Polygon [(0, 0), (10, 0), (10, 10), (0, 10)] [])"
    by (simp add: buildings_processing_def select_building_def clean_geometry_def
        sample_shapely_def sample_union_def sample_is_valid_def sample_simplify_def)
  from buildings_result_valid_under_library_contract [OF h1 h2 h3 h4]
  have v: "is_valid sample_shapely (Polygon [(0, 0), (10, 0), (10, 10), (0, 10)] [])"
    by (rule conjunct1)
  show ?thesis
    by (rule conjI [OF h3 conjI [OF h4 v]])
qed

text \<open>
  A further property of the path stage. Whenever it returns, the list it returns is not
  empty; without a graph, and for a graph whose edge table is built and whose edges are
  all discarded, it returns the single curve from (5,5) to (15,15).
\<close>

theorem paths_processing_returns_paths:
  "(paths_processing sh ox graph = Inr paths \<longrightarrow> paths \<noteq> [])
   \<and> paths_processing sh ox None = Inr [LineString [(5, 5), (15, 15)]]
   \<and> (graph_to_gdfs ox g = Inr edges
        \<and> list_all (\<lambda>x. \<not> edge_is_path x \<or> \<not> is_valid sh (simplify sh x 1)) edges
      \<longrightarrow> paths_processing sh ox (Some g) = Inr [LineString [(5, 5), (15, 15)]])"
proof -
  have a: "paths \<noteq> []" if "paths_processing sh ox graph = Inr paths"
    using that
    by (auto simp: paths_processing_def or_fallback_def split: option.splits sum.splits if_splits)
  have b: "paths_processing sh ox None = Inr [LineString [(5, 5), (15, 15)]]"
    by (simp add: paths_processing_def or_fallback_def fallback_path_def)
  have c: "paths_processing sh ox (Some g) = Inr [LineString [(5, 5), (15, 15)]]"
    if "graph_to_gdfs ox g = Inr edges"
      and "list_all (\<lambda>x. \<not> edge_is_path x \<or> \<not> is_valid sh (simplify sh x 1)) edges"
  proof -
    from that(2) have "simplified_paths sh edges = []"
      by (induction edges) (auto simp: simplified_paths_def)
    with that(1) show ?thesis
      by (simp add: paths_processing_def collect_paths_acc or_fallback_def fallback_path_def)
  qed
  from a b c show ?thesis by blast
qed

text \<open>
  A point, a curve of one repeated point and an empty curve: all discarded.
\<close>

theorem paths_processing_returns_paths_witness:
  "graph_to_gdfs sample_osmnx [Point (1, 1), LineString [(1, 1), (1, 1)], LineString []]
     = Inr [Point (1, 1), LineString [(1, 1), (1, 1)], LineString []]
   \<and> list_all (\<lambda>x. \<not> edge_is_path x \<or> \<not> is_valid sample_shapely (simplify sample_shapely x 1))
        [Point (1, 1), LineString [(1, 1), (1, 1)], LineString []]
   \<and> paths_processing sample_shapely sample_osmnx
        (Some [Point (1, 1), LineString [(1, 1), (1, 1)], LineString []])
       = Inr [LineString [(5, 5), (15, 15)]]"
proof -
  let ?es = "[Point (1, 1), LineString [(1, 1), (1, 1)], LineString []]"
  have h1: "graph_to_gdfs sample_osmnx ?es = Inr ?es"
    by (simp add: sample_osmnx_def)
  have h2: "list_all (\<lambda>x. \<not> edge_is_path x \<or> \<not> is_valid sample_shapely (simplify sample_shapely x 1)) ?es"
    by (simp add: edge_is_path_def sample_shapely_def sample_is_valid_def sample_simplify_def)
  from paths_processing_returns_paths
    [where sh = sample_shapely and ox = sample_osmnx and g = ?es and edges = ?es
       and graph = None and paths = "[]"] h1 h2
  have r: "paths_processing sample_shapely sample_osmnx (Some ?es)
       = Inr [LineString [(5, 5), (15, 15)]]"
    by blast
  show ?thesis by (rule conjI [OF h1 conjI [OF h2 r]])
qed

end
